theory Spec2Isabelle
  imports Main "HOL-Library.Word"
begin

unbundle bit_operations_syntax

section \<open>Scripts/ollama-embed.py: the embedding CLI\<close>

text \<open>
  The script has one function, \<^verbatim>\<open>embed\<close>, and an entry point. Everything else it
  runs is the Python standard library: \<^verbatim>\<open>json.dumps\<close>, \<^verbatim>\<open>str.encode\<close>,
  \<^verbatim>\<open>urllib.request\<close>, \<^verbatim>\<open>bytes.decode\<close>, \<^verbatim>\<open>json.loads\<close>, subscription and
  \<^verbatim>\<open>print\<close>. The part of the library that decides what the script does before the
  network is reached (the JSON encoder with its default options, the UTF-8 encoder, the
  check of the URL in the constructor of a request) and after the body is parsed
  (subscription) is written out below; the part that talks to the network and parses
  what comes back is a parameter of the model, the record \<open>pylib\<close>, and every theorem
  holds for each such library.
\<close>

subsection \<open>Strings and bytes\<close>

text \<open>
  A Python \<^verbatim>\<open>str\<close> is a sequence of Unicode code points (a well-formed one has every
  element below \<open>0x110000\<close>); a \<^verbatim>\<open>bytes\<close> object is a sequence of octets.
\<close>

type_synonym pystr = "nat list"
type_synonym bytes = "8 word list"

definition pystr_of :: "string \<Rightarrow> pystr" where
  "pystr_of s = map of_char s"

definition bytes_of :: "string \<Rightarrow> bytes" where
  "bytes_of s = map of_char s"

text \<open>\<^verbatim>\<open>sep.join(parts)\<close>.\<close>

fun join :: "pystr \<Rightarrow> pystr list \<Rightarrow> pystr" where
  "join sep [] = []"
| "join sep [x] = x"
| "join sep (x # y # ys) = x @ sep @ join sep (y # ys)"

text \<open>The decimal digits of a natural number, as \<^verbatim>\<open>str(n)\<close> writes them.\<close>

function dec_digits :: "nat \<Rightarrow> pystr" where
  "dec_digits n = (if n < 10 then [48 + n] else dec_digits (n div 10) @ [48 + n mod 10])"
  by pat_completeness auto
termination
  by (relation "measure id") auto

declare dec_digits.simps [simp del]

definition int_repr :: "int \<Rightarrow> pystr" where
  "int_repr i = (if i < 0 then 45 # dec_digits (nat (- i)) else dec_digits (nat i))"

text \<open>One lowercase hexadecimal digit, and \<^verbatim>\<open>'{0:04x}'.format(n)\<close> for \<open>n < 0x10000\<close>.\<close>

definition hex_digit :: "nat \<Rightarrow> nat" where
  "hex_digit d = (if d < 10 then 48 + d else 87 + d)"

definition hex4 :: "nat \<Rightarrow> pystr" where
  "hex4 n = [hex_digit (n div 4096 mod 16), hex_digit (n div 256 mod 16),
             hex_digit (n div 16 mod 16), hex_digit (n mod 16)]"

subsection \<open>Exceptions\<close>

text \<open>
  An exception is its class and the text \<^verbatim>\<open>str(e)\<close> gives for it. All classes below
  derive from \<^verbatim>\<open>Exception\<close> except \<^verbatim>\<open>KeyboardInterrupt\<close>, which derives from
  \<^verbatim>\<open>BaseException\<close> only.
\<close>

datatype exn_class =
    URLError | HTTPError | TimeoutError | OSError
  | UnicodeEncodeError | UnicodeDecodeError | JSONDecodeError
  | KeyError | IndexError | TypeError | ValueError
  | OtherException
  | KeyboardInterrupt

datatype exn = Exn (cls: exn_class) (message: pystr)

fun is_Exception :: "exn_class \<Rightarrow> bool" where
  "is_Exception KeyboardInterrupt = False"
| "is_Exception _ = True"

text \<open>Sequencing of two steps either of which may raise.\<close>

definition and_then :: "exn + 'a \<Rightarrow> ('a \<Rightarrow> exn + 'b) \<Rightarrow> exn + 'b" where
  "and_then r f = (case r of Inl e \<Rightarrow> Inl e | Inr x \<Rightarrow> f x)"

subsection \<open>\<^verbatim>\<open>str.encode('utf-8')\<close>\<close>

definition is_surrogate :: "nat \<Rightarrow> bool" where
  "is_surrogate c = (0xD800 \<le> c \<and> c \<le> 0xDFFF)"

definition utf8_char :: "nat \<Rightarrow> bytes" where
  "utf8_char c =
     (if c < 0x80 then [of_nat c]
      else if c < 0x800 then [of_nat (0xC0 OR drop_bit 6 c), of_nat (0x80 OR (c AND 0x3F))]
      else if c < 0x10000 then
        [of_nat (0xE0 OR drop_bit 12 c), of_nat (0x80 OR (drop_bit 6 c AND 0x3F)),
         of_nat (0x80 OR (c AND 0x3F))]
      else
        [of_nat (0xF0 OR drop_bit 18 c), of_nat (0x80 OR (drop_bit 12 c AND 0x3F)),
         of_nat (0x80 OR (drop_bit 6 c AND 0x3F)), of_nat (0x80 OR (c AND 0x3F))])"

text \<open>
  The strict error handler: a surrogate code point cannot be encoded. The exception
  names the run of surrogates that starts at the offending position.
\<close>

definition surrogate_error :: "nat \<Rightarrow> nat \<Rightarrow> nat \<Rightarrow> exn" where
  "surrogate_error pos c more =
     Exn UnicodeEncodeError
       (if more = 0 then
          [0x27] @ pystr_of ''utf-8' codec can't encode character '' @ [0x27, 0x5C]
            @ pystr_of ''u'' @ hex4 c @ [0x27] @ pystr_of '' in position '' @ dec_digits pos
            @ pystr_of '': surrogates not allowed''
        else
          [0x27] @ pystr_of ''utf-8' codec can't encode characters in position ''
            @ dec_digits pos @ pystr_of ''-'' @ dec_digits (pos + more)
            @ pystr_of '': surrogates not allowed'')"

fun encode_from :: "nat \<Rightarrow> pystr \<Rightarrow> exn + bytes" where
  "encode_from pos [] = Inr []"
| "encode_from pos (c # cs) =
     (if is_surrogate c then Inl (surrogate_error pos c (length (takeWhile is_surrogate cs)))
      else and_then (encode_from (Suc pos) cs) (\<lambda>bs. Inr (utf8_char c @ bs)))"

definition encode_utf8 :: "pystr \<Rightarrow> exn + bytes" where
  "encode_utf8 s = encode_from 0 s"

subsection \<open>Values of the \<^verbatim>\<open>json\<close> module\<close>

text \<open>
  What \<^verbatim>\<open>json.loads\<close> returns and \<^verbatim>\<open>json.dumps\<close> accepts: \<^verbatim>\<open>None\<close>, a
  \<^verbatim>\<open>bool\<close>, an \<^verbatim>\<open>int\<close>, a \<^verbatim>\<open>float\<close>, a \<^verbatim>\<open>str\<close>, a \<^verbatim>\<open>list\<close>, or a
  \<^verbatim>\<open>dict\<close> with string keys, its items in insertion order. The script never computes
  with a float: it hands it from the parser to the encoder, which writes
  \<^verbatim>\<open>float.__repr__\<close> of it. A float is therefore represented by that text (\<open>0.1\<close>,
  \<open>1e-05\<close>, \<open>nan\<close>, \<open>inf\<close>, \<open>-inf\<close>).
\<close>

datatype pyval =
    PNone
  | PBool bool
  | PInt int
  | PFloat pystr
  | PStr pystr
  | PList "pyval list"
  | PDict "(pystr \<times> pyval) list"

subsection \<open>\<^verbatim>\<open>json.dumps\<close> with its default options\<close>

text \<open>
  \<^verbatim>\<open>ensure_ascii=True\<close>: inside a string, the backslash and the double quote are
  escaped, the characters from the space to the tilde stand for themselves, the usual
  control characters have a short escape, and every other code point is written
  \<^verbatim>\<open>\uXXXX\<close>, as a surrogate pair from \<open>0x10000\<close> on.
\<close>

definition escape_char :: "nat \<Rightarrow> pystr" where
  "escape_char c =
     (if c = 0x5C then [0x5C, 0x5C]
      else if c = 0x22 then [0x5C, 0x22]
      else if c = 0x08 then 0x5C # pystr_of ''b''
      else if c = 0x0C then 0x5C # pystr_of ''f''
      else if c = 0x0A then 0x5C # pystr_of ''n''
      else if c = 0x0D then 0x5C # pystr_of ''r''
      else if c = 0x09 then 0x5C # pystr_of ''t''
      else if 0x20 \<le> c \<and> c \<le> 0x7E then [c]
      else if c < 0x10000 then 0x5C # pystr_of ''u'' @ hex4 c
      else
        (let n = c - 0x10000;
             s1 = 0xD800 OR (drop_bit 10 n AND 0x3FF);
             s2 = 0xDC00 OR (n AND 0x3FF)
         in 0x5C # pystr_of ''u'' @ hex4 s1 @ 0x5C # pystr_of ''u'' @ hex4 s2))"

definition encode_basestring_ascii :: "pystr \<Rightarrow> pystr" where
  "encode_basestring_ascii s = 0x22 # concat (map escape_char s) @ [0x22]"

text \<open>\<^verbatim>\<open>allow_nan=True\<close>: the three non-finite floats have names of their own.\<close>

definition floatstr :: "pystr \<Rightarrow> pystr" where
  "floatstr r =
     (if r = pystr_of ''nan'' then pystr_of ''NaN''
      else if r = pystr_of ''inf'' then pystr_of ''Infinity''
      else if r = pystr_of ''-inf'' then pystr_of ''-Infinity''
      else r)"

text \<open>Separators \<^verbatim>\<open>', '\<close> and \<^verbatim>\<open>': '\<close>, no indentation, keys in the dict's order.\<close>

fun json_dumps :: "pyval \<Rightarrow> pystr" where
  "json_dumps PNone = pystr_of ''null''"
| "json_dumps (PBool b) = (if b then pystr_of ''true'' else pystr_of ''false'')"
| "json_dumps (PInt i) = int_repr i"
| "json_dumps (PFloat r) = floatstr r"
| "json_dumps (PStr s) = encode_basestring_ascii s"
| "json_dumps (PList xs) =
     pystr_of ''['' @ join (pystr_of '', '') (map json_dumps xs) @ pystr_of '']''"
| "json_dumps (PDict kvs) =
     pystr_of ''{'' @
       join (pystr_of '', '')
         (map (\<lambda>(k, v). encode_basestring_ascii k @ pystr_of '': '' @ json_dumps v) kvs)
       @ pystr_of ''}''"

subsection \<open>Subscription of a parsed value\<close>

text \<open>
  \<^verbatim>\<open>result["embeddings"]\<close>: a dict is looked up (\<^verbatim>\<open>KeyError\<close> when the key is absent,
  whose text is the \<^verbatim>\<open>repr\<close> of the key); a list or a string takes no string index;
  nothing else can be subscripted. The texts of the exceptions are those of CPython 3.11
  and later; no property below depends on their wording.
\<close>

definition not_subscriptable :: "string \<Rightarrow> exn" where
  "not_subscriptable ty =
     Exn TypeError ([0x27] @ pystr_of ty @ [0x27] @ pystr_of '' object is not subscriptable'')"

fun getitem_embeddings :: "pyval \<Rightarrow> exn + pyval" where
  "getitem_embeddings (PDict kvs) =
     (case map_of kvs (pystr_of ''embeddings'') of
        None \<Rightarrow> Inl (Exn KeyError ([0x27] @ pystr_of ''embeddings'' @ [0x27]))
      | Some v \<Rightarrow> Inr v)"
| "getitem_embeddings (PList xs) =
     Inl (Exn TypeError (pystr_of ''list indices must be integers or slices, not str''))"
| "getitem_embeddings (PStr s) =
     Inl (Exn TypeError (pystr_of ''string indices must be integers, not 'str'' @ [0x27]))"
| "getitem_embeddings PNone = Inl (not_subscriptable ''NoneType'')"
| "getitem_embeddings (PBool b) = Inl (not_subscriptable ''bool'')"
| "getitem_embeddings (PInt i) = Inl (not_subscriptable ''int'')"
| "getitem_embeddings (PFloat r) = Inl (not_subscriptable ''float'')"

text \<open>
  \<^verbatim>\<open>x[0]\<close>: the first element of a list, the first character of a string (a string
  itself), \<^verbatim>\<open>IndexError\<close> when there is none; a dict from JSON has string keys only,
  so the key \<open>0\<close> is absent.
\<close>

fun getitem_0 :: "pyval \<Rightarrow> exn + pyval" where
  "getitem_0 (PList []) = Inl (Exn IndexError (pystr_of ''list index out of range''))"
| "getitem_0 (PList (x # xs)) = Inr x"
| "getitem_0 (PStr []) = Inl (Exn IndexError (pystr_of ''string index out of range''))"
| "getitem_0 (PStr (c # cs)) = Inr (PStr [c])"
| "getitem_0 (PDict kvs) = Inl (Exn KeyError (pystr_of ''0''))"
| "getitem_0 PNone = Inl (not_subscriptable ''NoneType'')"
| "getitem_0 (PBool b) = Inl (not_subscriptable ''bool'')"
| "getitem_0 (PInt i) = Inl (not_subscriptable ''int'')"
| "getitem_0 (PFloat r) = Inl (not_subscriptable ''float'')"

subsection \<open>The library the script calls\<close>

text \<open>
  A request object holds the four arguments \<^verbatim>\<open>urllib.request.Request\<close> was built
  from: \<^verbatim>\<open>url\<close>, \<^verbatim>\<open>data\<close>, \<^verbatim>\<open>headers\<close> and \<^verbatim>\<open>method\<close>. What urllib derives
  from them when the request is opened (host, selector, fragment, the spelling of header
  names) belongs to \<^verbatim>\<open>urlopen\<close>.
\<close>

record request =
  url :: pystr
  data :: bytes
  headers :: "(pystr \<times> pystr) list"
  "method" :: pystr

text \<open>A response object: \<^verbatim>\<open>read()\<close> on it returns the body or raises.\<close>

datatype response = Response (read: "exn + bytes")

text \<open>
  The library functions that are not written out. \<open>urlopen lib req t\<close> is all that
  \<^verbatim>\<open>urllib.request\<close> does with the request \<open>req\<close> opened with \<^verbatim>\<open>timeout=t\<close>
  seconds, the service included: it returns a response or raises (a URL it refuses, a
  refused connection, a timeout, a status that is an error). \<open>decode_utf8 lib\<close> is
  \<^verbatim>\<open>bytes.decode('utf-8')\<close> and \<open>json_loads lib\<close> is \<^verbatim>\<open>json.loads\<close>; each returns
  its result or raises. \<open>repr_str lib s\<close> is \<^verbatim>\<open>repr(s)\<close> for a string \<open>s\<close>, which
  depends on the Unicode tables.
\<close>

record pylib =
  urlopen :: "request \<Rightarrow> nat \<Rightarrow> exn + response"
  decode_utf8 :: "bytes \<Rightarrow> exn + pystr"
  json_loads :: "pystr \<Rightarrow> exn + pyval"
  repr_str :: "pystr \<Rightarrow> pystr"

subsection \<open>\<^verbatim>\<open>urllib.request.Request\<close>\<close>

text \<open>
  The constructor parses the URL it is given and raises when it finds no scheme:
  \<^verbatim>\<open>
  def unwrap(url):
      url = str(url).strip()
      if url[:1] == '<' and url[-1:] == '>':
          url = url[1:-1].strip()
      if url[:4] == 'URL:':
          url = url[4:].strip()
      return url

  def _splittag(url):
      path, delim, tag = url.rpartition('#')
      if delim:
          return path, tag
      return url, None

  def _splittype(url):            # _typeprog = re.compile('([^/:]+):(.*)', re.DOTALL)
      match = _typeprog.match(url)
      if match:
          scheme, data = match.groups()
          return scheme.lower(), data
      return None, url

  class Request:
      def full_url(self, url):    # the setter, run by __init__
          self._full_url = unwrap(url)
          self._full_url, self.fragment = _splittag(self._full_url)
          self._parse()
      def _parse(self):
          self.type, rest = _splittype(self._full_url)
          if self.type is None:
              raise ValueError("unknown url type: %r" % self.full_url)
  \<close>
\<close>

text \<open>The characters \<^verbatim>\<open>str.strip()\<close> removes: those for which \<^verbatim>\<open>str.isspace\<close> holds.\<close>

definition is_space :: "nat \<Rightarrow> bool" where
  "is_space c =
     ((0x09 \<le> c \<and> c \<le> 0x0D) \<or> (0x1C \<le> c \<and> c \<le> 0x20) \<or> c = 0x85 \<or> c = 0xA0
      \<or> c = 0x1680 \<or> (0x2000 \<le> c \<and> c \<le> 0x200A) \<or> c = 0x2028 \<or> c = 0x2029
      \<or> c = 0x202F \<or> c = 0x205F \<or> c = 0x3000)"

definition strip :: "pystr \<Rightarrow> pystr" where
  "strip s = rev (dropWhile is_space (rev (dropWhile is_space s)))"

definition unwrap :: "pystr \<Rightarrow> pystr" where
  "unwrap url0 =
     (let url1 = strip url0;
          url2 = (if take 1 url1 = pystr_of ''<'' \<and> take 1 (rev url1) = pystr_of ''>''
                  then strip (butlast (tl url1)) else url1)
      in if take 4 url2 = pystr_of ''URL:'' then strip (drop 4 url2) else url2)"

text \<open>\<^verbatim>\<open>_splittag\<close>: the text before the last \<^verbatim>\<open>#\<close>, and the text after it if there is one.\<close>

definition splittag :: "pystr \<Rightarrow> pystr \<times> pystr option" where
  "splittag u =
     (if 0x23 \<in> set u then
        (rev (tl (dropWhile (\<lambda>c. c \<noteq> 0x23) (rev u))),
         Some (rev (takeWhile (\<lambda>c. c \<noteq> 0x23) (rev u))))
      else (u, None))"

text \<open>
  Whether \<^verbatim>\<open>_splittype\<close> finds a scheme: at least one character other than \<^verbatim>\<open>/\<close> and
  \<^verbatim>\<open>:\<close>, then a colon.
\<close>

definition has_type :: "pystr \<Rightarrow> bool" where
  "has_type u =
     (let scheme = takeWhile (\<lambda>c. c \<noteq> 0x2F \<and> c \<noteq> 0x3A) u
      in scheme \<noteq> [] \<and> take 1 (drop (length scheme) u) = pystr_of '':'')"

text \<open>The property \<^verbatim>\<open>full_url\<close> of a request under construction.\<close>

definition full_url :: "pystr \<Rightarrow> pystr" where
  "full_url url0 =
     (case splittag (unwrap url0) of
        (path, Some tag) \<Rightarrow> if tag \<noteq> [] then path @ pystr_of ''#'' @ tag else path
      | (path, None) \<Rightarrow> path)"

definition Request :: "pylib \<Rightarrow> pystr \<Rightarrow> bytes \<Rightarrow> (pystr \<times> pystr) list \<Rightarrow> pystr \<Rightarrow> exn + request" where
  "Request lib url0 data0 headers0 method0 =
     (if has_type (fst (splittag (unwrap url0))) then
        Inr \<lparr>url = url0, data = data0, headers = headers0, method = method0\<rparr>
      else
        Inl (Exn ValueError (pystr_of ''unknown url type: '' @ repr_str lib (full_url url0))))"

text \<open>
  What a run leaves behind: the requests it built and handed to \<^verbatim>\<open>urlopen\<close>, in
  order, each with its timeout, and the text written to the two output streams. Writing
  to a stream always succeeds.
\<close>

record world =
  calls :: "(request \<times> nat) list"
  stdout :: pystr
  stderr :: pystr

text \<open>\<^verbatim>\<open>print(s)\<close> and \<^verbatim>\<open>print(s, file=sys.stderr)\<close> write \<open>s\<close> and a newline.\<close>

definition print_stdout :: "pystr \<Rightarrow> world \<Rightarrow> world" where
  "print_stdout s w = w\<lparr>stdout := stdout w @ s @ [0x0A]\<rparr>"

definition print_stderr :: "pystr \<Rightarrow> world \<Rightarrow> world" where
  "print_stderr s w = w\<lparr>stderr := stderr w @ s @ [0x0A]\<rparr>"

subsection \<open>\<^verbatim>\<open>embed\<close>\<close>

text \<open>
  \<^verbatim>\<open>
  def embed(text, model="mxbai-embed-large", base_url="http://localhost:11434"):
      url = f"{base_url}/api/embed"
      data = json.dumps({"model": model, "input": text}).encode('utf-8')
      req = urllib.request.Request(url, data=data,
                headers={"Content-Type": "application/json"}, method="POST")
      with urllib.request.urlopen(req, timeout=60) as response:
          result = json.loads(response.read().decode('utf-8'))
          return result["embeddings"][0]
  \<close>
\<close>

definition default_model :: pystr where
  "default_model = pystr_of ''mxbai-embed-large''"

definition default_base_url :: pystr where
  "default_base_url = pystr_of ''http://localhost:11434''"

text \<open>Lines 9 to 17: the URL, the payload and the request object.\<close>

definition build_request :: "pylib \<Rightarrow> pystr \<Rightarrow> pystr \<Rightarrow> pystr \<Rightarrow> exn + request" where
  "build_request lib text model base_url =
     (let url = base_url @ pystr_of ''/api/embed'' in
      and_then
        (encode_utf8
           (json_dumps (PDict [(pystr_of ''model'', PStr model), (pystr_of ''input'', PStr text)])))
        (\<lambda>data.
           Request lib url data
             [(pystr_of ''Content-Type'', pystr_of ''application/json'')] (pystr_of ''POST'')))"

text \<open>Lines 20 and 21: the body of the \<^verbatim>\<open>with\<close> block.\<close>

definition read_embedding :: "pylib \<Rightarrow> response \<Rightarrow> exn + pyval" where
  "read_embedding lib response =
     and_then (read response) (\<lambda>raw.
     and_then (decode_utf8 lib raw) (\<lambda>s.
     and_then (json_loads lib s) (\<lambda>result.
     and_then (getitem_embeddings result) getitem_0)))"

definition embed :: "pylib \<Rightarrow> pystr \<Rightarrow> pystr \<Rightarrow> pystr \<Rightarrow> world \<Rightarrow> (exn + pyval) \<times> world" where
  "embed lib text model base_url w =
     (case build_request lib text model base_url of
        Inl e \<Rightarrow> (Inl e, w)
      | Inr req \<Rightarrow>
          (and_then (urlopen lib req 60) (read_embedding lib),
           w\<lparr>calls := calls w @ [(req, 60)]\<rparr>))"

subsection \<open>The entry point\<close>

text \<open>
  \<^verbatim>\<open>
  if len(sys.argv) < 2:
      print("Usage: ollama-embed.py <text>", file=sys.stderr)
      sys.exit(1)
  text = sys.argv[1]
  try:
      embedding = embed(text)
      print(json.dumps(embedding))
  except Exception as e:
      print(f"Error: {e}", file=sys.stderr)
      sys.exit(1)
  \<close>
  A run ends with an exit status, or with an exception that nothing caught (the
  interpreter then reports it itself and the status is not 0).
\<close>

datatype ending = Exit nat | Uncaught exn

definition main :: "pylib \<Rightarrow> pystr list \<Rightarrow> world \<Rightarrow> ending \<times> world" where
  "main lib argv w =
     (if length argv < 2 then
        (Exit 1, print_stderr (pystr_of ''Usage: ollama-embed.py <text>'') w)
      else
        (let text = argv ! 1 in
         case embed lib text default_model default_base_url w of
           (Inr embedding, w1) \<Rightarrow> (Exit 0, print_stdout (json_dumps embedding) w1)
         | (Inl e, w1) \<Rightarrow>
             if is_Exception (cls e) then
               (Exit 1, print_stderr (pystr_of ''Error: '' @ message e) w1)
             else (Uncaught e, w1)))"

text \<open>The state in which a run starts.\<close>

definition world0 :: world where
  "world0 = \<lparr>calls = [], stdout = [], stderr = []\<rparr>"

subsection \<open>A library for concrete runs\<close>

text \<open>
  A service that gives the same answer to every request, with a decoder that is right on
  ASCII bodies, a parser that returns a fixed result, and a \<^verbatim>\<open>repr\<close> that is right on
  printable ASCII without quotes and backslashes: the test double that the concrete runs
  below are made with.
\<close>

definition canned_lib :: "(exn + response) \<Rightarrow> (exn + pyval) \<Rightarrow> pylib" where
  "canned_lib answer parsed =
     \<lparr>urlopen = (\<lambda>req t. answer),
      decode_utf8 = (\<lambda>raw. Inr (map unat raw)),
      json_loads = (\<lambda>s. parsed),
      repr_str = (\<lambda>s. [0x27] @ s @ [0x27])\<rparr>"

section \<open>The request\<close>

text \<open>The JSON encoder writes ASCII only, whatever the string holds.\<close>

lemma hex_digit_bound: "d < 16 \<Longrightarrow> hex_digit d < 128"
  by (simp add: hex_digit_def)

lemma hex4_ascii: "\<forall>x\<in>set (hex4 n). x < 128"
  by (simp add: hex4_def hex_digit_bound)

lemma escape_char_ascii: "\<forall>x\<in>set (escape_char c). x < 128"
  using hex4_ascii by (auto simp: escape_char_def pystr_of_def Let_def)

lemma encode_basestring_ascii_ascii: "\<forall>x\<in>set (encode_basestring_ascii s). x < 128"
  using escape_char_ascii by (auto simp: encode_basestring_ascii_def)

text \<open>On ASCII text the UTF-8 encoder never raises, and writes one byte for each character.\<close>

lemma encode_from_ascii:
  "\<forall>c\<in>set s. c < 128 \<Longrightarrow> encode_from pos s = Inr (map of_nat s)"
  by (induction s arbitrary: pos) (auto simp: is_surrogate_def utf8_char_def and_then_def)

text \<open>Printable ASCII other than the quote and the backslash is not escaped.\<close>

lemma escape_char_plain:
  "0x20 \<le> c \<Longrightarrow> c \<le> 0x7E \<Longrightarrow> c \<noteq> 0x22 \<Longrightarrow> c \<noteq> 0x5C \<Longrightarrow> escape_char c = [c]"
  by (simp add: escape_char_def)

lemma concat_escape_plain:
  "\<forall>c\<in>set s. 0x20 \<le> c \<and> c \<le> 0x7E \<and> c \<noteq> 0x22 \<and> c \<noteq> 0x5C \<Longrightarrow>
     concat (map escape_char s) = s"
  by (induction s) (simp_all add: escape_char_plain)

lemma encode_basestring_ascii_plain:
  "\<forall>c\<in>set s. 0x20 \<le> c \<and> c \<le> 0x7E \<and> c \<noteq> 0x22 \<and> c \<noteq> 0x5C \<Longrightarrow>
     encode_basestring_ascii s = 0x22 # s @ [0x22]"
  by (simp add: encode_basestring_ascii_def concat_escape_plain)

lemma enc_key_model: \<open>encode_basestring_ascii (pystr_of ''model'') = pystr_of ''"model"''\<close>
  by (simp add: encode_basestring_ascii_def escape_char_def pystr_of_def)

lemma enc_key_input: \<open>encode_basestring_ascii (pystr_of ''input'') = pystr_of ''"input"''\<close>
  by (simp add: encode_basestring_ascii_def escape_char_def pystr_of_def)

lemma enc_default_model:
  \<open>encode_basestring_ascii default_model = pystr_of ''"mxbai-embed-large"''\<close>
  by (simp add: encode_basestring_ascii_def escape_char_def pystr_of_def default_model_def)

text \<open>The payload, as text and as bytes.\<close>

lemma payload_dumps:
  \<open>json_dumps (PDict [(pystr_of ''model'', PStr m), (pystr_of ''input'', PStr t)]) =
     pystr_of ''{"model": '' @ encode_basestring_ascii m @ pystr_of '', "input": ''
       @ encode_basestring_ascii t @ pystr_of ''}''\<close>
  by (simp add: enc_key_model enc_key_input) (simp add: pystr_of_def)

lemma payload_ascii:
  "\<forall>x\<in>set (json_dumps (PDict [(pystr_of ''model'', PStr m), (pystr_of ''input'', PStr t)])).
     x < 128"
  unfolding payload_dumps using encode_basestring_ascii_ascii
  by (auto simp: pystr_of_def)

lemma payload_encode:
  \<open>encode_utf8 (json_dumps (PDict [(pystr_of ''model'', PStr m), (pystr_of ''input'', PStr t)])) =
     Inr (bytes_of ''{"model": '' @ map of_nat (encode_basestring_ascii m)
            @ bytes_of '', "input": '' @ map of_nat (encode_basestring_ascii t)
            @ bytes_of ''}'')\<close>
proof -
  let ?payload = "PDict [(pystr_of ''model'', PStr m), (pystr_of ''input'', PStr t)]"
  have "encode_utf8 (json_dumps ?payload) = Inr (map of_nat (json_dumps ?payload))"
    unfolding encode_utf8_def by (rule encode_from_ascii) (rule payload_ascii)
  also have \<open>map of_nat (json_dumps ?payload) =
     (bytes_of ''{"model": '' @ map of_nat (encode_basestring_ascii m)
        @ bytes_of '', "input": '' @ map of_nat (encode_basestring_ascii t)
        @ bytes_of ''}'' :: bytes)\<close>
    unfolding payload_dumps by (simp add: pystr_of_def bytes_of_def)
  finally show ?thesis .
qed

text \<open>
  The request is built when the URL has a scheme, and only then: without one the
  constructor raises \<^verbatim>\<open>ValueError\<close>.
\<close>

lemma build_request_eq:
  \<open>has_type (fst (splittag (unwrap (b @ pystr_of ''/api/embed'')))) \<Longrightarrow>
   build_request lib t m b =
     Inr \<lparr>url = b @ pystr_of ''/api/embed'',
            data = bytes_of ''{"model": '' @ map of_nat (encode_basestring_ascii m)
                     @ bytes_of '', "input": '' @ map of_nat (encode_basestring_ascii t)
                     @ bytes_of ''}'',
            headers = [(pystr_of ''Content-Type'', pystr_of ''application/json'')], method = pystr_of ''POST''\<rparr>\<close>
  by (simp only: build_request_def Let_def payload_encode and_then_def sum.case Request_def if_True)


lemma default_url:
  "default_base_url @ pystr_of ''/api/embed'' = pystr_of ''http://localhost:11434/api/embed''"
  by (simp add: default_base_url_def pystr_of_def)

lemma default_url_has_type:
  "has_type (fst (splittag (unwrap (default_base_url @ pystr_of ''/api/embed''))))"
  unfolding default_url
  by (simp add: has_type_def splittag_def unwrap_def strip_def is_space_def pystr_of_def)

lemma build_request_default:
  \<open>build_request lib t default_model default_base_url =
     Inr \<lparr>url = pystr_of ''http://localhost:11434/api/embed'',
            data = bytes_of ''{"model": "mxbai-embed-large", "input": ''
                     @ map of_nat (encode_basestring_ascii t) @ bytes_of ''}'',
            headers = [(pystr_of ''Content-Type'', pystr_of ''application/json'')], method = pystr_of ''POST''\<rparr>\<close>
  unfolding build_request_eq[OF default_url_has_type] default_url enc_default_model
  by (simp add: pystr_of_def bytes_of_def)

lemma hello_request:
  \<open>build_request lib (pystr_of ''hello'') default_model default_base_url =
     Inr \<lparr>url = pystr_of ''http://localhost:11434/api/embed'',
            data = bytes_of ''{"model": "mxbai-embed-large", "input": "hello"}'',
            headers = [(pystr_of ''Content-Type'', pystr_of ''application/json'')], method = pystr_of ''POST''\<rparr>\<close>
  unfolding build_request_default
  by (simp add: encode_basestring_ascii_def escape_char_def pystr_of_def bytes_of_def)

lemma hi_request:
  \<open>build_request lib (pystr_of ''hi'') default_model default_base_url =
     Inr \<lparr>url = pystr_of ''http://localhost:11434/api/embed'',
            data = bytes_of ''{"model": "mxbai-embed-large", "input": "hi"}'',
            headers = [(pystr_of ''Content-Type'', pystr_of ''application/json'')], method = pystr_of ''POST''\<rparr>\<close>
  unfolding build_request_default
  by (simp add: encode_basestring_ascii_def escape_char_def pystr_of_def bytes_of_def)

lemma embed_eq:
  "build_request lib t m b = Inr req \<Longrightarrow>
   embed lib t m b w =
     (and_then (urlopen lib req 60) (read_embedding lib), w\<lparr>calls := calls w @ [(req, 60)]\<rparr>)"
  by (simp add: embed_def)


text \<open>
  C2. Whatever the text \<open>t\<close>, the payload \<^verbatim>\<open>{"model": model, "input": t}\<close> with the
  default model, serialized and encoded, is the bytes
  \<^verbatim>\<open>{"model": "mxbai-embed-large", "input": \<close> followed by the JSON string for \<open>t\<close> and a
  closing brace; called with its defaults, \<^verbatim>\<open>embed\<close> makes one request, whose body is
  these bytes; for the text \<^verbatim>\<open>x\<close> the body is exactly
  \<^verbatim>\<open>{"model": "mxbai-embed-large", "input": "x"}\<close>; and for a text of printable ASCII
  characters other than the quote and the backslash, the JSON string is the text between
  two quotes.
\<close>

theorem C2_request_body:
  \<open>encode_utf8
      (json_dumps (PDict [(pystr_of ''model'', PStr default_model), (pystr_of ''input'', PStr t)]))
     = Inr (bytes_of ''{"model": "mxbai-embed-large", "input": ''
              @ map of_nat (encode_basestring_ascii t) @ bytes_of ''}'')
   \<and> map (data \<circ> fst) (calls (snd (embed lib t default_model default_base_url w))) =
       map (data \<circ> fst) (calls w) @
         [bytes_of ''{"model": "mxbai-embed-large", "input": ''
            @ map of_nat (encode_basestring_ascii t) @ bytes_of ''}'']
   \<and> map (data \<circ> fst)
         (calls (snd (embed lib (pystr_of ''x'') default_model default_base_url w))) =
       map (data \<circ> fst) (calls w) @
         [bytes_of ''{"model": "mxbai-embed-large", "input": "x"}'']
   \<and> ((\<forall>c\<in>set t. 0x20 \<le> c \<and> c \<le> 0x7E \<and> c \<noteq> 0x22 \<and> c \<noteq> 0x5C) \<longrightarrow>
        map (data \<circ> fst) (calls (snd (embed lib t default_model default_base_url w))) =
          map (data \<circ> fst) (calls w) @
            [bytes_of ''{"model": "mxbai-embed-large", "input": "'' @ map of_nat t
               @ bytes_of ''"}''])\<close>
proof (intro conjI impI)
  show \<open>encode_utf8
      (json_dumps (PDict [(pystr_of ''model'', PStr default_model), (pystr_of ''input'', PStr t)]))
     = Inr (bytes_of ''{"model": "mxbai-embed-large", "input": ''
              @ map of_nat (encode_basestring_ascii t) @ bytes_of ''}'')\<close>
    unfolding payload_encode enc_default_model by (simp add: pystr_of_def bytes_of_def)
  show \<open>map (data \<circ> fst) (calls (snd (embed lib t default_model default_base_url w))) =
       map (data \<circ> fst) (calls w) @
         [bytes_of ''{"model": "mxbai-embed-large", "input": ''
            @ map of_nat (encode_basestring_ascii t) @ bytes_of ''}'']\<close>
    unfolding embed_eq[OF build_request_default] by simp
  show \<open>map (data \<circ> fst)
         (calls (snd (embed lib (pystr_of ''x'') default_model default_base_url w))) =
       map (data \<circ> fst) (calls w) @
         [bytes_of ''{"model": "mxbai-embed-large", "input": "x"}'']\<close>
    unfolding embed_eq[OF build_request_default]
    by (simp add: encode_basestring_ascii_def escape_char_def pystr_of_def bytes_of_def)
  assume plain: "\<forall>c\<in>set t. 0x20 \<le> c \<and> c \<le> 0x7E \<and> c \<noteq> 0x22 \<and> c \<noteq> 0x5C"
  show \<open>map (data \<circ> fst) (calls (snd (embed lib t default_model default_base_url w))) =
          map (data \<circ> fst) (calls w) @
            [bytes_of ''{"model": "mxbai-embed-large", "input": "'' @ map of_nat t
               @ bytes_of ''"}'']\<close>
    unfolding embed_eq[OF build_request_default] encode_basestring_ascii_plain[OF plain]
    by (simp add: bytes_of_def)
qed

theorem C2_request_body_witness:
  \<open>map (data \<circ> fst)
      (calls (snd (embed (canned_lib (Inr (Response (Inr (bytes_of ''{"embeddings": [[0.5]]}''))))
           (Inr (PDict [(pystr_of ''embeddings'', PList [PList [PFloat (pystr_of ''0.5'')]])])))
                     (pystr_of ''hello world'') default_model default_base_url world0))) =
     [bytes_of ''{"model": "mxbai-embed-large", "input": "hello world"}'']\<close>
proof -
  have plain: "\<forall>c\<in>set (pystr_of ''hello world''). 0x20 \<le> c \<and> c \<le> 0x7E \<and> c \<noteq> 0x22 \<and> c \<noteq> 0x5C"
    by (simp add: pystr_of_def)
  show ?thesis
    using C2_request_body[THEN conjunct2, THEN conjunct2, THEN conjunct2, THEN mp, OF plain,
        of \<open>canned_lib (Inr (Response (Inr (bytes_of ''{"embeddings": [[0.5]]}''))))
           (Inr (PDict [(pystr_of ''embeddings'', PList [PList [PFloat (pystr_of ''0.5'')]])]))\<close> world0]
    by (simp add: world0_def pystr_of_def bytes_of_def)
qed




section \<open>The response\<close>

text \<open>Once the body is read, decoded and parsed, the result is the two subscriptions.\<close>

lemma embed_parsed:
  assumes "build_request lib t m b = Inr req"
    and "urlopen lib req 60 = Inr resp"
    and "read resp = Inr raw"
    and "decode_utf8 lib raw = Inr s"
    and "json_loads lib s = Inr result"
  shows "embed lib t m b w =
           (and_then (getitem_embeddings result) getitem_0, w\<lparr>calls := calls w @ [(req, 60)]\<rparr>)"
  using assms by (simp add: embed_def read_embedding_def and_then_def)

text \<open>An exception of any step is the exception of \<^verbatim>\<open>embed\<close>.\<close>

lemma embed_raises_urlopen:
  "build_request lib t m b = Inr req \<Longrightarrow> urlopen lib req 60 = Inl e \<Longrightarrow>
     fst (embed lib t m b w) = Inl e"
  by (simp add: embed_def and_then_def)

lemma embed_raises_read:
  "build_request lib t m b = Inr req \<Longrightarrow> urlopen lib req 60 = Inr resp \<Longrightarrow> read resp = Inl e \<Longrightarrow>
     fst (embed lib t m b w) = Inl e"
  by (simp add: embed_def read_embedding_def and_then_def)

lemma embed_raises_decode:
  "build_request lib t m b = Inr req \<Longrightarrow> urlopen lib req 60 = Inr resp \<Longrightarrow> read resp = Inr raw \<Longrightarrow>
   decode_utf8 lib raw = Inl e \<Longrightarrow> fst (embed lib t m b w) = Inl e"
  by (simp add: embed_def read_embedding_def and_then_def)

lemma embed_raises_loads:
  "build_request lib t m b = Inr req \<Longrightarrow> urlopen lib req 60 = Inr resp \<Longrightarrow> read resp = Inr raw \<Longrightarrow>
   decode_utf8 lib raw = Inr s \<Longrightarrow> json_loads lib s = Inl e \<Longrightarrow>
     fst (embed lib t m b w) = Inl e"
  by (simp add: embed_def read_embedding_def and_then_def)

text \<open>What the two subscriptions can raise.\<close>

lemma getitem_embeddings_class:
  "getitem_embeddings v = Inl e \<Longrightarrow> cls e = KeyError \<or> cls e = TypeError"
  by (cases v) (auto simp: not_subscriptable_def split: option.splits)

lemma getitem_0_class:
  "getitem_0 v = Inl e \<Longrightarrow> cls e = KeyError \<or> cls e = TypeError \<or> cls e = IndexError"
  by (cases v rule: getitem_0.cases) (auto simp: not_subscriptable_def)

text \<open>
  C5. When the body parses to an object whose \<^verbatim>\<open>embeddings\<close> is a non-empty array,
  \<^verbatim>\<open>embed\<close> returns the first element of that array, whatever follows it.
\<close>

theorem C5_first_embedding:
  assumes "build_request lib t m b = Inr req"
    and "urlopen lib req 60 = Inr resp"
    and "read resp = Inr raw"
    and "decode_utf8 lib raw = Inr s"
    and "json_loads lib s = Inr (PDict kvs)"
    and "map_of kvs (pystr_of ''embeddings'') = Some (PList (x # xs))"
  shows "fst (embed lib t m b w) = Inr x"
  using assms(6) by (simp add: embed_parsed[OF assms(1-5)] and_then_def)

theorem C5_first_embedding_witness:
  \<open>fst (embed
         (canned_lib (Inr (Response (Inr (bytes_of ''{"embeddings": [[1], [2]]}''))))
            (Inr (PDict [(pystr_of ''embeddings'', PList [PList [PInt 1], PList [PInt 2]])])))
         (pystr_of ''hi'') default_model default_base_url world0)
     = Inr (PList [PInt 1])\<close>
  using C5_first_embedding[OF hi_request,
      where lib = \<open>canned_lib (Inr (Response (Inr (bytes_of ''{"embeddings": [[1], [2]]}''))))
            (Inr (PDict [(pystr_of ''embeddings'', PList [PList [PInt 1], PList [PInt 2]])]))\<close>
        and resp = \<open>Response (Inr (bytes_of ''{"embeddings": [[1], [2]]}''))\<close>
        and raw = \<open>bytes_of ''{"embeddings": [[1], [2]]}''\<close>
        and s = \<open>map unat (bytes_of ''{"embeddings": [[1], [2]]}'')\<close>
        and kvs = \<open>[(pystr_of ''embeddings'', PList [PList [PInt 1], PList [PInt 2]])]\<close>
        and x = \<open>PList [PInt 1]\<close> and xs = \<open>[PList [PInt 2]]\<close>]
  by (simp add: canned_lib_def)

text \<open>
  C7. When the body parses to an object whose \<^verbatim>\<open>embeddings\<close> is the empty array,
  \<^verbatim>\<open>embed\<close> raises the \<^verbatim>\<open>IndexError\<close> of the subscription \<^verbatim>\<open>[0]\<close>: nothing checks
  for emptiness, and the exception is the ordinary one of a list index out of range.
\<close>

theorem C7_empty_embeddings:
  assumes "build_request lib t m b = Inr req"
    and "urlopen lib req 60 = Inr resp"
    and "read resp = Inr raw"
    and "decode_utf8 lib raw = Inr s"
    and "json_loads lib s = Inr (PDict kvs)"
    and "map_of kvs (pystr_of ''embeddings'') = Some (PList [])"
  shows "fst (embed lib t m b w) = Inl (Exn IndexError (pystr_of ''list index out of range''))"
  using assms(6) by (simp add: embed_parsed[OF assms(1-5)] and_then_def)

theorem C7_empty_embeddings_witness:
  \<open>fst (embed
         (canned_lib (Inr (Response (Inr (bytes_of ''{"embeddings": []}''))))
            (Inr (PDict [(pystr_of ''embeddings'', PList [])])))
         (pystr_of ''hi'') default_model default_base_url world0)
     = Inl (Exn IndexError (pystr_of ''list index out of range''))\<close>
  using C7_empty_embeddings[OF hi_request,
      where lib = \<open>canned_lib (Inr (Response (Inr (bytes_of ''{"embeddings": []}''))))
            (Inr (PDict [(pystr_of ''embeddings'', PList [])]))\<close>
        and resp = \<open>Response (Inr (bytes_of ''{"embeddings": []}''))\<close>
        and raw = \<open>bytes_of ''{"embeddings": []}''\<close>
        and s = \<open>map unat (bytes_of ''{"embeddings": []}'')\<close>
        and kvs = \<open>[(pystr_of ''embeddings'', PList [])]\<close>]
  by (simp add: canned_lib_def)

section \<open>The entry point\<close>

lemma main_run:
  "main lib (prog # t # rest) w =
     (case embed lib t default_model default_base_url w of
        (Inr embedding, w1) \<Rightarrow> (Exit 0, print_stdout (json_dumps embedding) w1)
      | (Inl e, w1) \<Rightarrow>
          if is_Exception (cls e) then
            (Exit 1, print_stderr (pystr_of ''Error: '' @ message e) w1)
          else (Uncaught e, w1))"
  by (simp add: main_def)

text \<open>
  C1. When the service answers the request for the text \<^verbatim>\<open>hello\<close> with the body
  \<^verbatim>\<open>{"embeddings": [[0.1, 0.2, 0.3]]}\<close>, and the library decodes and parses that body to
  the object it denotes, the run with the argument \<^verbatim>\<open>hello\<close> writes \<^verbatim>\<open>[0.1, 0.2, 0.3]\<close>
  and a newline to standard output, nothing to standard error, and exits with status 0.
\<close>

theorem C1_hello_prints_vector:
  assumes \<open>urlopen lib
             \<lparr>url = pystr_of ''http://localhost:11434/api/embed'',
              data = bytes_of ''{"model": "mxbai-embed-large", "input": "hello"}'',
              headers = [(pystr_of ''Content-Type'', pystr_of ''application/json'')], method = pystr_of ''POST''\<rparr> 60
           = Inr (Response (Inr (bytes_of ''{"embeddings": [[0.1, 0.2, 0.3]]}'')))\<close>
    and \<open>decode_utf8 lib (bytes_of ''{"embeddings": [[0.1, 0.2, 0.3]]}'')
           = Inr (pystr_of ''{"embeddings": [[0.1, 0.2, 0.3]]}'')\<close>
    and \<open>json_loads lib (pystr_of ''{"embeddings": [[0.1, 0.2, 0.3]]}'')
           = Inr (PDict [(pystr_of ''embeddings'',
                    PList [PList [PFloat (pystr_of ''0.1''), PFloat (pystr_of ''0.2''),
                                  PFloat (pystr_of ''0.3'')]])])\<close>
  shows \<open>main lib [prog, pystr_of ''hello''] world0 =
           (Exit 0,
            \<lparr>calls =
               [(\<lparr>url = pystr_of ''http://localhost:11434/api/embed'',
                  data = bytes_of ''{"model": "mxbai-embed-large", "input": "hello"}'',
                  headers = [(pystr_of ''Content-Type'', pystr_of ''application/json'')], method = pystr_of ''POST''\<rparr>, 60)],
             stdout = pystr_of ''[0.1, 0.2, 0.3]'' @ [0x0A],
             stderr = []\<rparr>)\<close>
proof -
  have \<open>read (Response (Inr (bytes_of ''{"embeddings": [[0.1, 0.2, 0.3]]}'')))
          = Inr (bytes_of ''{"embeddings": [[0.1, 0.2, 0.3]]}'')\<close>
    by simp
  note run = embed_parsed[OF hello_request assms(1) this assms(2) assms(3)]
  show ?thesis
    unfolding main_run run
    by (simp add: and_then_def print_stdout_def world0_def floatstr_def pystr_of_def)
qed

theorem C1_hello_prints_vector_witness:
  \<open>main (canned_lib (Inr (Response (Inr (bytes_of ''{"embeddings": [[0.1, 0.2, 0.3]]}''))))
           (Inr (PDict [(pystr_of ''embeddings'',
                   PList [PList [PFloat (pystr_of ''0.1''), PFloat (pystr_of ''0.2''),
                                 PFloat (pystr_of ''0.3'')]])])))
        [pystr_of ''ollama-embed.py'', pystr_of ''hello''] world0 =
     (Exit 0,
      \<lparr>calls =
         [(\<lparr>url = pystr_of ''http://localhost:11434/api/embed'',
            data = bytes_of ''{"model": "mxbai-embed-large", "input": "hello"}'',
            headers = [(pystr_of ''Content-Type'', pystr_of ''application/json'')], method = pystr_of ''POST''\<rparr>, 60)],
       stdout = pystr_of ''[0.1, 0.2, 0.3]'' @ [0x0A],
       stderr = []\<rparr>)\<close>
  by (rule C1_hello_prints_vector) (simp_all add: canned_lib_def bytes_of_def pystr_of_def)

text \<open>
  C10. Nothing checks what the first element of \<^verbatim>\<open>embeddings\<close> is: when the body parses
  to an object whose \<^verbatim>\<open>embeddings\<close> is a non-empty array, the run writes the JSON text of
  its first element \<open>v\<close>, whatever value \<open>v\<close> is, and exits with status 0. The run below
  does so for a string.
\<close>

theorem C10_no_shape_check:
  assumes "build_request lib t default_model default_base_url = Inr req"
    and "urlopen lib req 60 = Inr resp"
    and "read resp = Inr raw"
    and "decode_utf8 lib raw = Inr s"
    and "json_loads lib s = Inr (PDict kvs)"
    and "map_of kvs (pystr_of ''embeddings'') = Some (PList (v # vs))"
  shows "main lib (prog # t # rest) w =
           (Exit 0, w\<lparr>calls := calls w @ [(req, 60)],
                        stdout := stdout w @ json_dumps v @ [0x0A]\<rparr>)"
  using assms(6)
  by (simp add: main_run embed_parsed[OF assms(1-5)] and_then_def print_stdout_def)

theorem C10_no_shape_check_witness:
  \<open>main (canned_lib (Inr (Response (Inr (bytes_of ''{"embeddings": ["not a vector", 7]}''))))
           (Inr (PDict [(pystr_of ''embeddings'',
                   PList [PStr (pystr_of ''not a vector''), PInt 7])])))
        [pystr_of ''ollama-embed.py'', pystr_of ''hi''] world0 =
     (Exit 0,
      \<lparr>calls =
         [(\<lparr>url = pystr_of ''http://localhost:11434/api/embed'',
            data = bytes_of ''{"model": "mxbai-embed-large", "input": "hi"}'',
            headers = [(pystr_of ''Content-Type'', pystr_of ''application/json'')], method = pystr_of ''POST''\<rparr>, 60)],
       stdout = pystr_of ''"not a vector"'' @ [0x0A],
       stderr = []\<rparr>)\<close>
  using C10_no_shape_check[OF hi_request,
      where lib = \<open>canned_lib
                     (Inr (Response (Inr (bytes_of ''{"embeddings": ["not a vector", 7]}''))))
                     (Inr (PDict [(pystr_of ''embeddings'',
                             PList [PStr (pystr_of ''not a vector''), PInt 7])]))\<close>
        and resp = \<open>Response (Inr (bytes_of ''{"embeddings": ["not a vector", 7]}''))\<close>
        and raw = \<open>bytes_of ''{"embeddings": ["not a vector", 7]}''\<close>
        and s = \<open>map unat (bytes_of ''{"embeddings": ["not a vector", 7]}'')\<close>
        and kvs = \<open>[(pystr_of ''embeddings'', PList [PStr (pystr_of ''not a vector''), PInt 7])]\<close>
        and v = \<open>PStr (pystr_of ''not a vector'')\<close> and vs = \<open>[PInt 7]\<close>
        and prog = \<open>pystr_of ''ollama-embed.py''\<close> and rest = \<open>[]\<close> and w = world0]
  by (simp add: canned_lib_def world0_def)
     (simp add: encode_basestring_ascii_def escape_char_def pystr_of_def)

text \<open>
  C3. Whenever \<^verbatim>\<open>embed\<close> raises an exception \<open>e\<close> whose class derives from
  \<^verbatim>\<open>Exception\<close>, the run writes \<^verbatim>\<open>Error: \<close> followed by \<^verbatim>\<open>str(e)\<close> and a newline to
  standard error, leaves standard output alone, has made the one request and no other,
  and exits with status 1. The classes of a network error, an HTTP error status, a
  timeout, a body that is not UTF-8 or not JSON, and a missing key or a wrong shape all
  derive from \<^verbatim>\<open>Exception\<close>.
\<close>

theorem C3_errors_caught:
  "fst (embed lib t default_model default_base_url w) = Inl e \<Longrightarrow> is_Exception (cls e) \<Longrightarrow>
   build_request lib t default_model default_base_url = Inr req \<Longrightarrow>
     main lib (prog # t # rest) w =
       (Exit 1, w\<lparr>calls := calls w @ [(req, 60)],
                    stderr := stderr w @ pystr_of ''Error: '' @ message e @ [0x0A]\<rparr>)
     \<and> list_all is_Exception
           [URLError, HTTPError, TimeoutError, OSError, UnicodeDecodeError, JSONDecodeError,
            KeyError, IndexError, TypeError, ValueError]"
  by (auto simp: main_run embed_eq print_stderr_def split: sum.splits)

theorem C3_errors_caught_witness:
  \<open>main (canned_lib (Inr (Response (Inr (bytes_of ''{"error": "model not found"}''))))
           (Inr (PDict [(pystr_of ''error'', PStr (pystr_of ''model not found''))])))
        [pystr_of ''ollama-embed.py'', pystr_of ''hi''] world0 =
     (Exit 1,
      \<lparr>calls =
         [(\<lparr>url = pystr_of ''http://localhost:11434/api/embed'',
            data = bytes_of ''{"model": "mxbai-embed-large", "input": "hi"}'',
            headers = [(pystr_of ''Content-Type'', pystr_of ''application/json'')], method = pystr_of ''POST''\<rparr>, 60)],
       stdout = [],
       stderr = pystr_of ''Error: 'embeddings'' @ [0x27, 0x0A]\<rparr>)\<close>
proof -
  let ?lib = \<open>canned_lib (Inr (Response (Inr (bytes_of ''{"error": "model not found"}''))))
                (Inr (PDict [(pystr_of ''error'', PStr (pystr_of ''model not found''))]))\<close>
  have raised: "fst (embed ?lib (pystr_of ''hi'') default_model default_base_url world0) =
      Inl (Exn KeyError ([0x27] @ pystr_of ''embeddings'' @ [0x27]))"
    by (simp add: embed_eq[OF build_request_default] canned_lib_def read_embedding_def and_then_def
        pystr_of_def)
  show ?thesis
    using C3_errors_caught[OF raised _ hi_request, of \<open>pystr_of ''ollama-embed.py''\<close> \<open>[]\<close>]
    by (simp add: world0_def pystr_of_def)
qed

text \<open>
  C4. With no argument after the program name, the run writes the usage line to standard
  error and exits with status 1; it calls \<^verbatim>\<open>urlopen\<close> not once and writes nothing to
  standard output.
\<close>

theorem C4_usage:
  "length argv < 2 \<Longrightarrow>
     main lib argv w =
       (Exit 1, w\<lparr>stderr := stderr w @ pystr_of ''Usage: ollama-embed.py <text>'' @ [0x0A]\<rparr>)
     \<and> calls (snd (main lib argv w)) = calls w
     \<and> stdout (snd (main lib argv w)) = stdout w"
  by (simp add: main_def print_stderr_def)

theorem C4_usage_witness:
  \<open>main (canned_lib (Inr (Response (Inr (bytes_of ''{"embeddings": [[0.5]]}''))))
           (Inr (PDict [(pystr_of ''embeddings'', PList [PList [PFloat (pystr_of ''0.5'')]])])))
        [pystr_of ''ollama-embed.py''] world0 =
     (Exit 1, \<lparr>calls = [], stdout = [],
               stderr = pystr_of ''Usage: ollama-embed.py <text>'' @ [0x0A]\<rparr>)\<close>
  using C4_usage[of \<open>[pystr_of ''ollama-embed.py'']\<close>
      \<open>canned_lib (Inr (Response (Inr (bytes_of ''{"embeddings": [[0.5]]}''))))
         (Inr (PDict [(pystr_of ''embeddings'', PList [PList [PFloat (pystr_of ''0.5'')]])]))\<close>
      world0]
  by (simp add: world0_def)

text \<open>
  C8. Only \<^verbatim>\<open>sys.argv[1]\<close> is read: a run with further arguments is the run with the
  first argument alone, in its exit status, in both output streams and in the request
  it makes.
\<close>

theorem C8_extra_arguments_ignored:
  "main lib (prog # t # rest) w = main lib [prog, t] w"
  by (simp add: main_def)

text \<open>
  C9. A run that does not end with status 0 leaves standard output as it found it; a
  run that writes to standard output ends with status 0; started with nothing written,
  a run that exits with status 1 ends with an empty standard output.
\<close>

theorem C9_stdout_only_on_success:
  "(fst (main lib argv w) \<noteq> Exit 0 \<longrightarrow> stdout (snd (main lib argv w)) = stdout w)
   \<and> (stdout (snd (main lib argv w)) \<noteq> stdout w \<longrightarrow> fst (main lib argv w) = Exit 0)
   \<and> (fst (main lib argv world0) = Exit 1 \<longrightarrow> stdout (snd (main lib argv world0)) = [])"
  by (auto simp: main_def embed_eq[OF build_request_default] print_stderr_def Let_def world0_def
      split: sum.splits)

theorem C9_stdout_only_on_success_witness:
  \<open>fst (main (canned_lib
                (Inl (Exn HTTPError (pystr_of ''HTTP Error 500: Internal Server Error'')))
                (Inr PNone))
          [pystr_of ''ollama-embed.py'', pystr_of ''hi''] world0) = Exit 1
   \<and> stdout (snd (main (canned_lib
                (Inl (Exn HTTPError (pystr_of ''HTTP Error 500: Internal Server Error'')))
                (Inr PNone))
          [pystr_of ''ollama-embed.py'', pystr_of ''hi''] world0)) = []\<close>
proof -
  let ?lib = \<open>canned_lib
                (Inl (Exn HTTPError (pystr_of ''HTTP Error 500: Internal Server Error'')))
                (Inr PNone)\<close>
  let ?argv = \<open>[pystr_of ''ollama-embed.py'', pystr_of ''hi'']\<close>
  have status: "fst (main ?lib ?argv world0) = Exit 1"
    by (simp add: main_run embed_eq[OF build_request_default] canned_lib_def and_then_def)
  have "stdout (snd (main ?lib ?argv world0)) = []"
    by (rule C9_stdout_only_on_success[THEN conjunct2, THEN conjunct2, THEN mp]) (rule status)
  with status show ?thesis by (rule conjI)
qed

end
